theory Spec2Isabelle
  imports Main "HOL-Library.AList" "HOL-Library.Word"
begin

unbundle bit_operations_syntax

section \<open>Python values and exceptions\<close>

text \<open>
  The fragment of Python objects that reach the metrics sink's attributes and the
  tag arguments of its operations. A socket object is identified by a number.
\<close>

datatype pyobj =
    PNone
  | PBool bool
  | PInt int
  | PStr string
  | PList "pyobj list"
  | PSock nat

text \<open>
  Metric values and sample rates are numbers: an unbounded integer or a double,
  kept as its 64 bits (sign bit, exponent, fraction).
\<close>

datatype num = NInt int | NFloat "64 word"

datatype exn =
    TypeError string
  | RuntimeError string
  | AttributeError string
  | OSError
  | Exception string
  | KeyError string
  | UsageError string
  | BadParameter string
  | JSONDecodeError

text \<open>Truth value of an object, as \<^verbatim>\<open>if x:\<close> tests it.\<close>

fun truthy :: "pyobj \<Rightarrow> bool" where
  "truthy PNone = False"
| "truthy (PBool b) = b"
| "truthy (PInt i) = (i \<noteq> 0)"
| "truthy (PStr s) = (s \<noteq> [])"
| "truthy (PList xs) = (xs \<noteq> [])"
| "truthy (PSock s) = True"

text \<open>The operator \<^verbatim>\<open>+\<close>: numbers add (a bool counts as 0 or 1), strings
  and lists concatenate, every other pair of operands raises TypeError.\<close>

fun py_add :: "pyobj \<Rightarrow> pyobj \<Rightarrow> exn + pyobj" where
  "py_add (PInt a) (PInt b) = Inr (PInt (a + b))"
| "py_add (PInt a) (PBool b) = Inr (PInt (a + (if b then 1 else 0)))"
| "py_add (PBool a) (PInt b) = Inr (PInt ((if a then 1 else 0) + b))"
| "py_add (PBool a) (PBool b) = Inr (PInt ((if a then 1 else 0) + (if b then 1 else 0)))"
| "py_add (PStr a) (PStr b) = Inr (PStr (a @ b))"
| "py_add (PList a) (PList b) = Inr (PList (a @ b))"
| "py_add x y = Inl (TypeError ''unsupported operand type(s) for +'')"

text \<open>\<^verbatim>\<open>sep.join(x)\<close>: \<open>x\<close> must be iterable and yield strings only;
  a string iterates over its characters.\<close>

fun join_strs :: "string \<Rightarrow> string list \<Rightarrow> string" where
  "join_strs sep [] = []"
| "join_strs sep [s] = s"
| "join_strs sep (s # t # ss) = s @ sep @ join_strs sep (t # ss)"

fun str_items :: "pyobj list \<Rightarrow> string list option" where
  "str_items [] = Some []"
| "str_items (PStr s # xs) = (case str_items xs of None \<Rightarrow> None | Some ss \<Rightarrow> Some (s # ss))"
| "str_items (x # xs) = None"

definition py_join :: "string \<Rightarrow> pyobj \<Rightarrow> exn + string" where
  "py_join sep x =
     (case x of
        PList xs \<Rightarrow>
          (case str_items xs of
             None \<Rightarrow> Inl (TypeError ''sequence item: expected str instance'')
           | Some ss \<Rightarrow> Inr (join_strs sep ss))
      | PStr s \<Rightarrow> Inr (join_strs sep (map (\<lambda>c. [c]) s))
      | _ \<Rightarrow> Inl (TypeError ''can only join an iterable''))"

text \<open>Decimal text of an integer, as \<^verbatim>\<open>str\<close> and \<^verbatim>\<open>%d\<close> give it.\<close>

fun str_nat :: "nat \<Rightarrow> string" where
  "str_nat n = (if n < 10 then [''0123456789'' ! n] else str_nat (n div 10) @ [''0123456789'' ! (n mod 10)])"

definition str_int :: "int \<Rightarrow> string" where
  "str_int i = (if i < 0 then CHR ''-'' # str_nat (nat (- i)) else str_nat (nat i))"

section \<open>Numbers\<close>

text \<open>
  Arithmetic on doubles that the sink only passes through is a parameter: the text of a
  double, the comparison of the random draw with the sample rate, the difference of two
  clock readings, the product with an integer, and rounding to the nearest integer.
  Negation and the zero test are exact on the bits and are written out.
\<close>

record fpu =
  frepr :: "64 word \<Rightarrow> string"
  fgt :: "64 word \<Rightarrow> num \<Rightarrow> bool"
  fsub :: "64 word \<Rightarrow> 64 word \<Rightarrow> 64 word"
  fmul_int :: "int \<Rightarrow> 64 word \<Rightarrow> 64 word"
  fround :: "64 word \<Rightarrow> int"

definition sign_bit :: "64 word" where
  "sign_bit = 0x8000000000000000"

definition float_one :: "64 word" where
  "float_one = 0x3FF0000000000000"

text \<open>\<^verbatim>\<open>bool(x)\<close> of a number: false exactly for 0, 0.0 and -0.0.\<close>

fun num_truthy :: "num \<Rightarrow> bool" where
  "num_truthy (NInt i) = (i \<noteq> 0)"
| "num_truthy (NFloat w) = (w AND NOT sign_bit \<noteq> 0)"

text \<open>Unary minus: on a double it flips the sign bit.\<close>

fun num_neg :: "num \<Rightarrow> num" where
  "num_neg (NInt i) = NInt (- i)"
| "num_neg (NFloat w) = NFloat (w XOR sign_bit)"

text \<open>\<^verbatim>\<open>x != 1\<close>.\<close>

fun num_ne_one :: "num \<Rightarrow> bool" where
  "num_ne_one (NInt i) = (i \<noteq> 1)"
| "num_ne_one (NFloat w) = (w \<noteq> float_one)"

fun num_str :: "fpu \<Rightarrow> num \<Rightarrow> string" where
  "num_str fp (NInt i) = str_int i"
| "num_str fp (NFloat w) = frepr fp w"

section \<open>The metrics sink\<close>

text \<open>
  The sink object is its attribute dictionary, in insertion order. Beside it the state
  holds the UDP side of the process: the next socket number, the sockets connected so
  far with their address, the datagrams sent and the sockets closed.
\<close>

record state =
  attrs :: "(string \<times> pyobj) list"
  next_sock :: nat
  connected :: "(nat \<times> pyobj \<times> pyobj) list"
  sent :: "(nat \<times> string) list"
  closed :: "nat list"

definition hasattr :: "state \<Rightarrow> string \<Rightarrow> bool" where
  "hasattr st k = (map_of (attrs st) k \<noteq> None)"

definition getattr :: "state \<Rightarrow> string \<Rightarrow> exn + pyobj" where
  "getattr st k = (case map_of (attrs st) k of None \<Rightarrow> Inl (AttributeError k) | Some v \<Rightarrow> Inr v)"

text \<open>\<^verbatim>\<open>getattr(self, k, None)\<close>.\<close>

definition getattr_none :: "state \<Rightarrow> string \<Rightarrow> pyobj" where
  "getattr_none st k = (case map_of (attrs st) k of None \<Rightarrow> PNone | Some v \<Rightarrow> v)"

definition setattr :: "state \<Rightarrow> string \<Rightarrow> pyobj \<Rightarrow> state" where
  "setattr st k v = st\<lparr>attrs := AList.update k v (attrs st)\<rparr>"

text \<open>\<^verbatim>\<open>__init__\<close> stores five of its seven arguments; \<open>max_buffer_size\<close> and
  \<open>use_default_route\<close> are accepted and dropped.\<close>

definition init :: "pyobj \<Rightarrow> pyobj \<Rightarrow> pyobj \<Rightarrow> pyobj \<Rightarrow> pyobj \<Rightarrow> pyobj \<Rightarrow> pyobj \<Rightarrow> state" where
  "init host port max_buffer_size namespace constant_tags use_ms use_default_route =
     \<lparr>attrs = [(''host'', host), (''port'', port), (''namespace'', namespace),
               (''constant_tags'', constant_tags), (''use_ms'', use_ms)],
      next_sock = 0, connected = [], sent = [], closed = []\<rparr>"

subsection \<open>configure\<close>

definition allowed_keys :: "string list" where
  "allowed_keys = [''host'', ''port'', ''max_buffer_size'', ''namespace'',
                   ''constant_tags'', ''use_ms=False'', ''use_default_route'']"

text \<open>The loop over \<^verbatim>\<open>kwargs.items()\<close>: check the key, then assign it.\<close>

fun configure_loop :: "(string \<times> pyobj) list \<Rightarrow> state \<Rightarrow> (exn + unit) \<times> state" where
  "configure_loop [] st = (Inr (), st)"
| "configure_loop ((key, val) # kwargs) st =
     (if key \<notin> set allowed_keys
      then (Inl (TypeError (''Invalid keyword argument: '' @ key)), st)
      else configure_loop kwargs (setattr st key val))"

definition configure :: "state \<Rightarrow> (string \<times> pyobj) list \<Rightarrow> (exn + unit) \<times> state" where
  "configure st kwargs =
     (if hasattr st ''_socket''
      then (Inl (RuntimeError ''Cannot configure after metrics have been sent.''), st)
      else configure_loop kwargs st)"

subsection \<open>Tags and escaping\<close>

definition add_constant_tags :: "state \<Rightarrow> pyobj \<Rightarrow> exn + pyobj" where
  "add_constant_tags st tags =
     (case getattr st ''constant_tags'' of
        Inl x \<Rightarrow> Inl x
      | Inr constant_tags \<Rightarrow>
          if truthy constant_tags
          then (if truthy tags then py_add tags constant_tags else Inr constant_tags)
          else Inr tags)"




subsection \<open>The socket\<close>

text \<open>
  What the process cannot decide is given with each call: the draw of
  \<^verbatim>\<open>random()\<close>, and whether connecting and sending succeed.
\<close>

record env =
  rnd :: "64 word"
  connect_ok :: bool
  send_ok :: bool

definition get_socket :: "env \<Rightarrow> state \<Rightarrow> (exn + pyobj) \<times> state" where
  "get_socket e st =
     (if \<not> truthy (getattr_none st ''_socket'')
      then
        (let sock = next_sock st;
             st1 = st\<lparr>next_sock := Suc sock\<rparr>
         in case getattr st1 ''host'' of
              Inl x \<Rightarrow> (Inl x, st1)
            | Inr host \<Rightarrow>
                (case getattr st1 ''port'' of
                   Inl x \<Rightarrow> (Inl x, st1)
                 | Inr port \<Rightarrow>
                     if \<not> connect_ok e then (Inl OSError, st1)
                     else
                       (let st2 = st1\<lparr>connected := connected st1 @ [(sock, host, port)]\<rparr>;
                            st3 = setattr st2 ''_socket'' (PSock sock)
                        in (getattr st3 ''_socket'', st3))))
      else (getattr st ''_socket'', st))"

definition close_socket :: "state \<Rightarrow> (exn + unit) \<times> state" where
  "close_socket st =
     (if truthy (getattr_none st ''_socket'')
      then (case getattr_none st ''_socket'' of
              PSock s \<Rightarrow> (Inr (), setattr (st\<lparr>closed := closed st @ [s]\<rparr>) ''_socket'' PNone)
            | _ \<Rightarrow> (Inl (AttributeError ''close''), st))
      else (Inr (), st))"

text \<open>The packet is sent as its UTF-8 bytes; a \<open>string\<close> here is that byte sequence.\<close>

definition send_to_server :: "env \<Rightarrow> state \<Rightarrow> string \<Rightarrow> (exn + unit) \<times> state" where
  "send_to_server e st packet =
     (case get_socket e st of
        (Inl x, st1) \<Rightarrow> (Inl x, st1)
      | (Inr sock, st1) \<Rightarrow>
          (case sock of
             PSock s \<Rightarrow>
               if send_ok e then (Inr (), st1\<lparr>sent := sent st1 @ [(s, packet)]\<rparr>)
               else (Inl OSError, st1)
           | _ \<Rightarrow> (Inl (AttributeError ''send''), st1)))"

subsection \<open>Metric packets\<close>

definition report ::
  "fpu \<Rightarrow> env \<Rightarrow> state \<Rightarrow> string \<Rightarrow> string \<Rightarrow> num option \<Rightarrow> pyobj \<Rightarrow> num \<Rightarrow> (exn + unit) \<times> state" where
  "report fp e st metric metric_type val tags sample_rate =
     (case val of
        None \<Rightarrow> (Inr (), st)
      | Some v \<Rightarrow>
          if num_ne_one sample_rate \<and> fgt fp (rnd e) sample_rate then (Inr (), st)
          else
            (case add_constant_tags st tags of
               Inl x \<Rightarrow> (Inl x, st)
             | Inr tags \<Rightarrow>
                 (case getattr st ''namespace'' of
                    Inl x \<Rightarrow> (Inl x, st)
                  | Inr namespace \<Rightarrow>
                      (case (if truthy namespace then py_add namespace (PStr ''.'') else Inr (PStr [])) of
                         Inl x \<Rightarrow> (Inl x, st)
                       | Inr prefix \<Rightarrow>
                           (case (if truthy tags then py_join '','' tags else Inr []) of
                              Inl x \<Rightarrow> (Inl x, st)
                            | Inr joined \<Rightarrow>
                                send_to_server e st
                                  ((case prefix of PStr p \<Rightarrow> p | _ \<Rightarrow> [])
                                   @ metric @ '':'' @ num_str fp v @ ''|'' @ metric_type
                                   @ (if num_ne_one sample_rate then ''|@'' @ num_str fp sample_rate else [])
                                   @ (if truthy tags then ''|#'' @ joined else [])))))))"

definition gauge :: "fpu \<Rightarrow> env \<Rightarrow> state \<Rightarrow> string \<Rightarrow> num option \<Rightarrow> pyobj \<Rightarrow> num \<Rightarrow> (exn + unit) \<times> state" where
  "gauge fp e st metric val tags sample_rate = report fp e st metric ''g'' val tags sample_rate"

definition increment :: "fpu \<Rightarrow> env \<Rightarrow> state \<Rightarrow> string \<Rightarrow> num option \<Rightarrow> pyobj \<Rightarrow> num \<Rightarrow> (exn + unit) \<times> state" where
  "increment fp e st metric val tags sample_rate = report fp e st metric ''c'' val tags sample_rate"

text \<open>\<^verbatim>\<open>-value if value else value\<close>: \<open>None\<close> and zero are false and pass unchanged.\<close>

definition decrement_value :: "num option \<Rightarrow> num option" where
  "decrement_value val =
     (case val of
        None \<Rightarrow> None
      | Some v \<Rightarrow> if num_truthy v then Some (num_neg v) else Some v)"

definition decrement :: "fpu \<Rightarrow> env \<Rightarrow> state \<Rightarrow> string \<Rightarrow> num option \<Rightarrow> pyobj \<Rightarrow> num \<Rightarrow> (exn + unit) \<times> state" where
  "decrement fp e st metric val tags sample_rate =
     (let metric_value = decrement_value val
      in report fp e st metric ''c'' metric_value tags sample_rate)"

definition histogram :: "fpu \<Rightarrow> env \<Rightarrow> state \<Rightarrow> string \<Rightarrow> num option \<Rightarrow> pyobj \<Rightarrow> num \<Rightarrow> (exn + unit) \<times> state" where
  "histogram fp e st metric val tags sample_rate = report fp e st metric ''h'' val tags sample_rate"

definition distribution :: "fpu \<Rightarrow> env \<Rightarrow> state \<Rightarrow> string \<Rightarrow> num option \<Rightarrow> pyobj \<Rightarrow> num \<Rightarrow> (exn + unit) \<times> state" where
  "distribution fp e st metric val tags sample_rate = report fp e st metric ''d'' val tags sample_rate"

definition timing :: "fpu \<Rightarrow> env \<Rightarrow> state \<Rightarrow> string \<Rightarrow> num option \<Rightarrow> pyobj \<Rightarrow> num \<Rightarrow> (exn + unit) \<times> state" where
  "timing fp e st metric val tags sample_rate = report fp e st metric ''ms'' val tags sample_rate"

definition set_metric :: "fpu \<Rightarrow> env \<Rightarrow> state \<Rightarrow> string \<Rightarrow> num option \<Rightarrow> pyobj \<Rightarrow> num \<Rightarrow> (exn + unit) \<times> state" where
  "set_metric fp e st metric val tags sample_rate = report fp e st metric ''s'' val tags sample_rate"

subsection \<open>Events and service checks\<close>







subsection \<open>The timing context manager and decorator\<close>









section \<open>The command line\<close>

text \<open>
  Decoded JSON. An object is its list of members with distinct keys, in document order.
\<close>

datatype json =
    JNull
  | JBool bool
  | JInt int
  | JFloat "64 word"
  | JStr string
  | JList "json list"
  | JDict "(string \<times> json) list"

text \<open>A value of a command-line option, as it is logged and passed on.\<close>

datatype optval = ONone | OInt int | OFloat "64 word" | OStr string

text \<open>An open credentials file: its name and what reading it yields.\<close>

record pyfile =
  f_name :: string
  f_contents :: string

text \<open>
  \<^verbatim>\<open>BigQuery\<close> is imported from \<^verbatim>\<open>linehaul.bigquery\<close>; a client is kept as
  the arguments its constructor was called with.
\<close>

record bigquery =
  client_email :: json
  private_key :: json
  max_connections :: "int option"

text \<open>
  What a command does, in order: a debug log record (format and arguments), a JSON
  document decoded, the client constructed, and the call handed to \<^verbatim>\<open>trio.run\<close>
  (\<^verbatim>\<open>server_\<close> with its keyword arguments, or \<^verbatim>\<open>migrate_\<close>).
\<close>

datatype effect =
    LogDebug string "optval list"
  | JsonLoad string
  | BigQueryInit json json "int option"
  | ReadText string string
  | RunServer bigquery string "(string \<times> optval) list"
  | RunMigrate bigquery string json

text \<open>\<^verbatim>\<open>credentials[key]\<close>.\<close>

definition subscript :: "json \<Rightarrow> string \<Rightarrow> exn + json" where
  "subscript j k =
     (case j of
        JDict kvs \<Rightarrow> (case map_of kvs k of None \<Rightarrow> Inl (KeyError k) | Some v \<Rightarrow> Inr v)
      | _ \<Rightarrow> Inl (TypeError ''indices must be integers or object is not subscriptable''))"

text \<open>
  The tail of \<^verbatim>\<open>_configure_bigquery\<close>, shared by its two decoding branches: decode
  the text, then construct the client from two members of the result. The JSON decoder
  is a parameter.
\<close>

definition load_credentials ::
  "(string \<Rightarrow> exn + json) \<Rightarrow> string \<Rightarrow> int option \<Rightarrow> effect list \<times> (exn + bigquery)" where
  "load_credentials loads text api_max_connections =
     (case loads text of
        Inl x \<Rightarrow> ([JsonLoad text], Inl x)
      | Inr credentials \<Rightarrow>
          (case subscript credentials ''client_email'' of
             Inl x \<Rightarrow> ([JsonLoad text], Inl x)
           | Inr ce \<Rightarrow>
               (case subscript credentials ''private_key'' of
                  Inl x \<Rightarrow> ([JsonLoad text], Inl x)
                | Inr pk \<Rightarrow>
                    ([JsonLoad text, BigQueryInit ce pk api_max_connections],
                     Inr \<lparr>client_email = ce, private_key = pk,
                          max_connections = api_max_connections\<rparr>))))"

definition configure_bigquery ::
  "(string \<Rightarrow> exn + json) \<Rightarrow> pyfile option \<Rightarrow> string option \<Rightarrow> int option
     \<Rightarrow> effect list \<times> (exn + bigquery)" where
  "configure_bigquery loads credentials_file credentials_blob api_max_connections =
     (case (credentials_file, credentials_blob) of
        (None, None) \<Rightarrow>
          ([], Inl (UsageError ''Must pass either --credentials-file or --credentials-blob''))
      | (Some f, Some b) \<Rightarrow>
          ([], Inl (UsageError ''Cannot pass both --credentials-file and --credentials-blob''))
      | (Some f, None) \<Rightarrow>
          (case load_credentials loads (f_contents f) api_max_connections of
             (eff, r) \<Rightarrow> (LogDebug ''Configuring BigQuery from %r'' [OStr (f_name f)] # eff, r))
      | (None, Some b) \<Rightarrow>
          (case load_credentials loads b api_max_connections of
             (eff, r) \<Rightarrow> (LogDebug ''Configuring BigQuery from base64 blob'' [] # eff, r)))"


definition SENSITIVE :: "string list" where
  "SENSITIVE = [''token'']"

record server_opts =
  o_credentials_file :: "pyfile option"
  o_credentials_blob :: "string option"
  o_bind :: string
  o_port :: int
  o_token :: "string option"
  o_max_line_size :: int
  o_recv_size :: int
  o_cleanup_timeout :: int
  o_queued_events :: int
  o_batch_size :: int
  o_batch_timeout :: int
  o_retry_max_attempts :: int
  o_retry_max_wait :: "64 word"
  o_retry_multiplier :: "64 word"
  o_api_timeout :: int
  o_api_max_connections :: int
  o_table :: string

definition opt_str :: "string option \<Rightarrow> optval" where
  "opt_str x = (case x of None \<Rightarrow> ONone | Some s \<Rightarrow> OStr s)"

text \<open>One turn of the logging loop of \<^verbatim>\<open>server\<close>.\<close>

definition log_config :: "string \<times> optval \<Rightarrow> effect" where
  "log_config kv =
     (case kv of
        (key, val) \<Rightarrow>
          LogDebug ''Configuring %s to %r''
            [OStr key, if key \<in> set SENSITIVE then OStr (replicate 10 (CHR ''*'')) else val])"

definition server :: "(string \<Rightarrow> exn + json) \<Rightarrow> server_opts \<Rightarrow> effect list \<times> (exn + unit)" where
  "server loads opts =
     (case configure_bigquery loads (o_credentials_file opts) (o_credentials_blob opts)
             (Some (o_api_max_connections opts)) of
        (eff, Inl x) \<Rightarrow> (eff, Inl x)
      | (eff, Inr bq) \<Rightarrow>
          (eff
           @ map log_config
               [(''bind'', OStr (o_bind opts)),
                (''port'', OInt (o_port opts)),
                (''token'', opt_str (o_token opts)),
                (''max_line_size'', OInt (o_max_line_size opts)),
                (''recv_size'', OInt (o_recv_size opts)),
                (''cleanup_timeout'', OInt (o_cleanup_timeout opts)),
                (''qsize'', OInt (o_queued_events opts)),
                (''batch_size'', OInt (o_batch_size opts)),
                (''batch_timeout'', OInt (o_batch_timeout opts)),
                (''retry_max_attempts'', OInt (o_retry_max_attempts opts)),
                (''retry_max_wait'', OFloat (o_retry_max_wait opts)),
                (''retry_multiplier'', OFloat (o_retry_multiplier opts)),
                (''api_timeout'', OInt (o_api_timeout opts))]
           @ [RunServer bq (o_table opts)
                [(''bind'', OStr (o_bind opts)),
                 (''port'', OInt (o_port opts)),
                 (''token'', opt_str (o_token opts)),
                 (''max_line_size'', OInt (o_max_line_size opts)),
                 (''recv_size'', OInt (o_recv_size opts)),
                 (''qsize'', OInt (o_queued_events opts)),
                 (''batch_size'', OInt (o_batch_size opts)),
                 (''batch_timeout'', OInt (o_batch_timeout opts)),
                 (''retry_max_attempts'', OInt (o_retry_max_attempts opts)),
                 (''retry_max_wait'', OFloat (o_retry_max_wait opts)),
                 (''retry_multiplier'', OFloat (o_retry_multiplier opts)),
                 (''api_timeout'', OInt (o_api_timeout opts))]],
           Inr ()))"



section \<open>Notions used to state the properties\<close>

text \<open>An optional string and an optional list of tag strings as Python objects.\<close>

definition of_opt_str :: "string option \<Rightarrow> pyobj" where
  "of_opt_str x = (case x of None \<Rightarrow> PNone | Some s \<Rightarrow> PStr s)"

definition of_opt_tags :: "string list option \<Rightarrow> pyobj" where
  "of_opt_tags x = (case x of None \<Rightarrow> PNone | Some ts \<Rightarrow> PList (map PStr ts))"

definition tag_list :: "string list option \<Rightarrow> string list" where
  "tag_list x = (case x of None \<Rightarrow> [] | Some ts \<Rightarrow> ts)"

text \<open>
  The packet text as the specification words it: the namespace and a dot when a namespace
  is configured, the metric name, a colon, the value, a bar, the type code, and then
  \<open>|#\<close> with the comma-joined tags when there are tags.
\<close>

definition spec_packet :: "fpu \<Rightarrow> string option \<Rightarrow> string \<Rightarrow> num \<Rightarrow> string \<Rightarrow> string list \<Rightarrow> string" where
  "spec_packet fp namespace metric v code tags =
     (case namespace of None \<Rightarrow> [] | Some n \<Rightarrow> if n = [] then [] else n @ ''.'')
     @ metric @ '':'' @ num_str fp v @ ''|'' @ code
     @ (if tags = [] then [] else ''|#'' @ join_strs '','' tags)"

text \<open>The socket the next packet leaves on: the one stored, else the next one created.\<close>

definition out_sock :: "state \<Rightarrow> nat" where
  "out_sock st = (case getattr_none st ''_socket'' of PSock s \<Rightarrow> s | _ \<Rightarrow> next_sock st)"





fun server_calls :: "effect list \<Rightarrow> (bigquery \<times> string \<times> (string \<times> optval) list) list" where
  "server_calls [] = []"
| "server_calls (RunServer bq table kwargs # es) = (bq, table, kwargs) # server_calls es"
| "server_calls (x # es) = server_calls es"

text \<open>The debug record that shows the cleanup timeout.\<close>

fun is_cleanup_log :: "effect \<Rightarrow> bool" where
  "is_cleanup_log (LogDebug fmt [OStr key, val]) =
     (fmt = ''Configuring %s to %r'' \<and> key = ''cleanup_timeout'')"
| "is_cleanup_log x = False"



section \<open>Properties of the metrics sink\<close>

subsection \<open>configure\<close>

lemma loop_ok: "set (map fst kwargs) \<subseteq> set allowed_keys \<Longrightarrow>
   configure_loop kwargs st = (Inr (), foldl (\<lambda>s (a, b). setattr s a b) st kwargs)"
  by (induction kwargs arbitrary: st) auto

lemma loop_bad: "set (map fst pre) \<subseteq> set allowed_keys \<Longrightarrow> k \<notin> set allowed_keys \<Longrightarrow>
   configure_loop (pre @ (k, v) # post) st =
     (Inl (TypeError (''Invalid keyword argument: '' @ k)), foldl (\<lambda>s (a, b). setattr s a b) st pre)"
  by (induction pre arbitrary: st) auto


lemma map_of_assign: "map_of (attrs (foldl (\<lambda>s (a, b). setattr s a b) st kwargs)) = map_of (attrs st) ++ map_of (rev kwargs)"
proof (induction kwargs arbitrary: st)
  case Nil
  then show ?case by simp
next
  case (Cons kv kwargs)
  obtain k v where kv: "kv = (k, v)" by (cases kv)
  have "map_of (attrs (foldl (\<lambda>s (a, b). setattr s a b) st (kv # kwargs)))
          = map_of (attrs (setattr st k v)) ++ map_of (rev kwargs)"
    by (simp add: kv Cons.IH)
  moreover have "map_of (attrs (setattr st k v)) = (map_of (attrs st))(k \<mapsto> v)"
    by (simp add: setattr_def update_conv')
  ultimately show ?case
    by (intro ext) (simp add: kv map_add_def split: option.splits)
qed

lemma assigned: "distinct (map fst kwargs) \<Longrightarrow> (k, v) \<in> set kwargs \<Longrightarrow>
   getattr (foldl (\<lambda>s (a, b). setattr s a b) st kwargs) k = Inr v"
proof -
  assume d: "distinct (map fst kwargs)" and m: "(k, v) \<in> set kwargs"
  from d have "distinct (map fst (rev kwargs))" by (simp add: rev_map [symmetric])
  moreover from m have "(k, v) \<in> set (rev kwargs)" by simp
  ultimately have "map_of (rev kwargs) k = Some v" by (rule map_of_is_SomeI)
  then show ?thesis by (simp add: getattr_def map_of_assign map_add_def)
qed

lemma untouched: "k \<notin> fst ` set kwargs \<Longrightarrow>
   getattr (foldl (\<lambda>s (a, b). setattr s a b) st kwargs) k = getattr st k"
proof -
  assume "k \<notin> fst ` set kwargs"
  then have "map_of (rev kwargs) k = None" by (simp add: map_of_eq_None_iff)
  then show ?thesis by (simp add: getattr_def map_of_assign map_add_def)
qed

lemma loop_type_error: "k \<in> fst ` set kwargs \<Longrightarrow> k \<notin> set allowed_keys \<Longrightarrow>
  \<exists>k'. k' \<notin> set allowed_keys \<and> k' \<in> fst ` set kwargs \<and> fst (configure_loop kwargs st) = Inl (TypeError (''Invalid keyword argument: '' @ k'))"
proof (induction kwargs arbitrary: st)
  case Nil
  then show ?case by simp
next
  case (Cons kv kwargs)
  obtain a b where kv: "kv = (a, b)" by (cases kv)
  show ?case
  proof (cases "a \<in> set allowed_keys")
    case False
    then show ?thesis unfolding kv by (intro exI [of _ a]) simp
  next
    case True
    with Cons.prems kv have "k \<in> fst ` set kwargs" by auto
    from Cons.IH [OF this Cons.prems(2), of "setattr st a b"]
    obtain k' where "k' \<notin> set allowed_keys" "k' \<in> fst ` set kwargs"
      "fst (configure_loop kwargs (setattr st a b)) = Inl (TypeError (''Invalid keyword argument: '' @ k'))"
      by blast
    with True show ?thesis unfolding kv by (intro exI [of _ k']) simp
  qed
qed


lemma send_sets_socket:
  "send_to_server e st packet = (Inr (), st') \<Longrightarrow> hasattr st' ''_socket''"
  by (auto simp: send_to_server_def get_socket_def getattr_def getattr_none_def hasattr_def setattr_def
        update_conv' Let_def split: if_splits sum.splits option.splits pyobj.splits prod.splits)

lemma loop_keeps:
  "k \<notin> fst ` set kwargs \<Longrightarrow> getattr (snd (configure_loop kwargs st)) k = getattr st k"
proof (induction kwargs arbitrary: st)
  case Nil
  then show ?case by simp
next
  case (Cons kv kwargs)
  obtain a b where kv: "kv = (a, b)" by (cases kv)
  from Cons.prems kv have ne: "k \<noteq> a" and rest: "k \<notin> fst ` set kwargs" by auto
  have "getattr (setattr st a b) k = getattr st k"
    using ne by (simp add: getattr_def setattr_def update_conv')
  with Cons.IH [OF rest, of "setattr st a b"] show ?case
    by (simp add: kv)
qed

lemma loop_append:
  "set (map fst pre) \<subseteq> set allowed_keys \<Longrightarrow>
     configure_loop (pre @ rest) st = configure_loop rest (foldl (\<lambda>s (a, b). setattr s a b) st pre)"
  by (induction pre arbitrary: st) auto

lemma loop_reached:
  assumes "distinct (map fst (pre @ (k, v) # post))" "set (map fst pre) \<subseteq> set allowed_keys"
    and "k \<in> set allowed_keys"
  shows "getattr (snd (configure_loop (pre @ (k, v) # post) st)) k = Inr v"
proof -
  let ?st1 = "foldl (\<lambda>s (a, b). setattr s a b) st pre"
  from assms(1) have n: "k \<notin> fst ` set post" by auto
  have "configure_loop (pre @ (k, v) # post) st = configure_loop post (setattr ?st1 k v)"
    using assms(3) by (simp add: loop_append [OF assms(2)])
  moreover have "getattr (setattr ?st1 k v) k = Inr v"
    by (simp add: getattr_def setattr_def update_conv')
  ultimately show ?thesis by (simp add: loop_keeps [OF n])
qed

text \<open>
  Claim C1, as amended. On a sink that has no \<open>_socket\<close> attribute yet: a call of
  \<open>configure\<close> with a keyword named \<open>use_ms\<close> raises TypeError, naming a keyword of
  the call that is not in the allow-list; each of the keywords \<open>host\<close>, \<open>port\<close>,
  \<open>max_buffer_size\<close>, \<open>namespace\<close>, \<open>constant_tags\<close> and \<open>use_default_route\<close>
  is assigned to the attribute of the same name as soon as the loop reaches it, that is
  when every keyword before it in the call is an allowed one, and stays assigned whatever
  follows; and a call with only these six keywords returns normally, with every other
  attribute as before.
\<close>

theorem configure_keys:
  assumes "\<not> hasattr st ''_socket''"
  shows "(''use_ms'' \<in> fst ` set kwargs \<longrightarrow>
           (\<exists>bad. bad \<in> fst ` set kwargs \<and> bad \<notin> set allowed_keys \<and>
                fst (configure st kwargs) = Inl (TypeError (''Invalid keyword argument: '' @ bad))))
       \<and> (distinct (map fst (pre @ (k, v) # post)) \<and> set (map fst pre) \<subseteq> set allowed_keys
          \<and> k \<in> {''host'', ''port'', ''max_buffer_size'', ''namespace'',
                   ''constant_tags'', ''use_default_route''} \<longrightarrow>
            getattr (snd (configure st (pre @ (k, v) # post))) k = Inr v)
       \<and> (distinct (map fst kwargs) \<and>
          fst ` set kwargs \<subseteq> {''host'', ''port'', ''max_buffer_size'', ''namespace'',
                                 ''constant_tags'', ''use_default_route''} \<longrightarrow>
            fst (configure st kwargs) = Inr () \<and>
            (\<forall>(a, b) \<in> set kwargs. getattr (snd (configure st kwargs)) a = Inr b) \<and>
            (\<forall>a. a \<notin> fst ` set kwargs \<longrightarrow> getattr (snd (configure st kwargs)) a = getattr st a))"
proof (intro conjI impI)
  assume "''use_ms'' \<in> fst ` set kwargs"
  moreover have "''use_ms'' \<notin> set allowed_keys" by (simp add: allowed_keys_def)
  ultimately obtain bad where "bad \<notin> set allowed_keys" "bad \<in> fst ` set kwargs"
    "fst (configure_loop kwargs st) = Inl (TypeError (''Invalid keyword argument: '' @ bad))"
    using loop_type_error by blast
  with assms show "\<exists>bad. bad \<in> fst ` set kwargs \<and> bad \<notin> set allowed_keys \<and>
                fst (configure st kwargs) = Inl (TypeError (''Invalid keyword argument: '' @ bad))"
    by (auto simp: configure_def)
next
  assume a: "distinct (map fst (pre @ (k, v) # post)) \<and> set (map fst pre) \<subseteq> set allowed_keys
          \<and> k \<in> {''host'', ''port'', ''max_buffer_size'', ''namespace'',
                   ''constant_tags'', ''use_default_route''}"
  then have "k \<in> set allowed_keys" by (auto simp: allowed_keys_def)
  with a have "getattr (snd (configure_loop (pre @ (k, v) # post) st)) k = Inr v"
    by (intro loop_reached) simp_all
  with assms show "getattr (snd (configure st (pre @ (k, v) # post))) k = Inr v"
    by (simp add: configure_def)
next
  assume a: "distinct (map fst kwargs) \<and>
          fst ` set kwargs \<subseteq> {''host'', ''port'', ''max_buffer_size'', ''namespace'',
                                 ''constant_tags'', ''use_default_route''}"
  then have "set (map fst kwargs) \<subseteq> set allowed_keys" by (auto simp: allowed_keys_def)
  with assms have c: "configure st kwargs = (Inr (), foldl (\<lambda>s (a, b). setattr s a b) st kwargs)"
    by (simp add: configure_def loop_ok)
  show "fst (configure st kwargs) = Inr ()" by (simp add: c)
  show "\<forall>(a, b) \<in> set kwargs. getattr (snd (configure st kwargs)) a = Inr b"
    using a by (auto simp: c assigned)
  show "\<forall>a. a \<notin> fst ` set kwargs \<longrightarrow> getattr (snd (configure st kwargs)) a = getattr st a"
    by (simp add: c untouched)
qed

text \<open>On a freshly constructed sink: \<open>use_ms\<close> after \<open>host\<close>, and two allowed keywords.\<close>

theorem configure_keys_witness:
  "fst (configure (init (PStr ''localhost'') (PInt 8125) (PInt 50) PNone PNone (PBool False) (PBool False))
          [(''host'', PStr ''127.0.0.1''), (''use_ms'', PBool True)])
     = Inl (TypeError ''Invalid keyword argument: use_ms'')
   \<and> getattr (snd (configure (init (PStr ''localhost'') (PInt 8125) (PInt 50) PNone PNone (PBool False) (PBool False))
          [(''host'', PStr ''127.0.0.1''), (''use_ms'', PBool True)])) ''host''
     = Inr (PStr ''127.0.0.1'')
   \<and> getattr (snd (configure (init (PStr ''localhost'') (PInt 8125) (PInt 50) PNone PNone (PBool False) (PBool False))
          [(''host'', PStr ''127.0.0.1''), (''use_default_route'', PBool True)])) ''use_default_route''
     = Inr (PBool True)"
proof -
  let ?st = "(init (PStr ''localhost'') (PInt 8125) (PInt 50) PNone PNone (PBool False) (PBool False))"
  have h: "\<not> hasattr ?st ''_socket''" by (simp add: hasattr_def init_def)
  have "fst (configure ?st [(''host'', PStr ''127.0.0.1''), (''use_ms'', PBool True)])
     = Inl (TypeError ''Invalid keyword argument: use_ms'')"
    using configure_keys [OF h, where kwargs = "[(''host'', PStr ''127.0.0.1''), (''use_ms'', PBool True)]",
        THEN conjunct1]
    by (auto simp: allowed_keys_def)
  moreover have "getattr (snd (configure ?st
          ([] @ (''host'', PStr ''127.0.0.1'') # [(''use_ms'', PBool True)]))) ''host''
     = Inr (PStr ''127.0.0.1'')"
    using configure_keys [OF h, where pre = "[]" and k = "''host''" and v = "PStr ''127.0.0.1''"
        and post = "[(''use_ms'', PBool True)]", THEN conjunct2, THEN conjunct1]
    by (simp add: allowed_keys_def)
  moreover have "getattr (snd (configure ?st
          [(''host'', PStr ''127.0.0.1''), (''use_default_route'', PBool True)])) ''use_default_route''
     = Inr (PBool True)"
    using configure_keys [OF h, where kwargs = "[(''host'', PStr ''127.0.0.1''), (''use_default_route'', PBool True)]",
        THEN conjunct2, THEN conjunct2]
    by simp
  ultimately show ?thesis by simp
qed

text \<open>
  Claim C1 as stated speaks of every call. After one gauge has been sent the sink has a
  \<open>_socket\<close> attribute, and then \<open>use_ms\<close> is answered with RuntimeError rather than
  TypeError, and \<open>host\<close> is not assigned. And on a fresh sink, \<open>host\<close> after
  \<open>use_ms\<close> is never reached, so it is not assigned either.
\<close>

theorem configure_keys_counterexample:
  "fst (configure
          (snd (gauge \<lparr>frepr = (\<lambda>w. []), fgt = (\<lambda>r s. False), fsub = (\<lambda>a b. a - b),
                       fmul_int = (\<lambda>i w. w), fround = (\<lambda>w. 0)\<rparr>
                     \<lparr>rnd = 0, connect_ok = True, send_ok = True\<rparr>
                     (init (PStr ''localhost'') (PInt 8125) (PInt 50) PNone PNone (PBool False) (PBool False))
                     ''users.online'' (Some (NInt 123)) PNone (NInt 1)))
          [(''use_ms'', PBool True)])
     = Inl (RuntimeError ''Cannot configure after metrics have been sent.'')
   \<and> getattr (snd (configure
          (snd (gauge \<lparr>frepr = (\<lambda>w. []), fgt = (\<lambda>r s. False), fsub = (\<lambda>a b. a - b),
                       fmul_int = (\<lambda>i w. w), fround = (\<lambda>w. 0)\<rparr>
                     \<lparr>rnd = 0, connect_ok = True, send_ok = True\<rparr>
                     (init (PStr ''localhost'') (PInt 8125) (PInt 50) PNone PNone (PBool False) (PBool False))
                     ''users.online'' (Some (NInt 123)) PNone (NInt 1)))
          [(''host'', PStr ''127.0.0.1'')])) ''host''
     = Inr (PStr ''localhost'')
   \<and> getattr (snd (configure (init (PStr ''localhost'') (PInt 8125) (PInt 50) PNone PNone (PBool False) (PBool False))
          [(''use_ms'', PBool True), (''host'', PStr ''127.0.0.1'')])) ''host''
     = Inr (PStr ''localhost'')"
  by code_simp

text \<open>
  Claim C10. \<open>configure\<close> is not atomic on error. On a sink without a \<open>_socket\<close>
  attribute, when the keywords before the first unknown one are all allowed, the call
  raises TypeError for that unknown keyword and leaves the sink with exactly those earlier
  keywords assigned, in order (each readable afterwards when the keys are distinct, as
  they are in a keyword dictionary). Once the \<open>_socket\<close> attribute exists, every call
  raises RuntimeError and leaves the state as it was; and every packet sent successfully
  leaves that attribute in place.
\<close>

theorem configure_not_atomic:
  "(\<not> hasattr st ''_socket'' \<and> set (map fst pre) \<subseteq> set allowed_keys \<and> k \<notin> set allowed_keys \<longrightarrow>
      configure st (pre @ (k, v) # post)
        = (Inl (TypeError (''Invalid keyword argument: '' @ k)),
           foldl (\<lambda>s (a, b). setattr s a b) st pre)
      \<and> (distinct (map fst pre) \<longrightarrow>
           (\<forall>(a, b) \<in> set pre. getattr (snd (configure st (pre @ (k, v) # post))) a = Inr b)))
   \<and> (hasattr st ''_socket'' \<longrightarrow>
        configure st kwargs = (Inl (RuntimeError ''Cannot configure after metrics have been sent.''), st))
   \<and> (send_to_server e st packet = (Inr (), st') \<longrightarrow> hasattr st' ''_socket'')"
proof (intro conjI impI)
  assume a: "\<not> hasattr st ''_socket'' \<and> set (map fst pre) \<subseteq> set allowed_keys \<and> k \<notin> set allowed_keys"
  then show c: "configure st (pre @ (k, v) # post)
        = (Inl (TypeError (''Invalid keyword argument: '' @ k)),
           foldl (\<lambda>s (a, b). setattr s a b) st pre)"
    by (simp add: configure_def loop_bad)
  assume "distinct (map fst pre)"
  then show "\<forall>(a, b) \<in> set pre. getattr (snd (configure st (pre @ (k, v) # post))) a = Inr b"
    by (auto simp: c assigned)
next
  assume "hasattr st ''_socket''"
  then show "configure st kwargs = (Inl (RuntimeError ''Cannot configure after metrics have been sent.''), st)"
    by (simp add: configure_def)
next
  assume "send_to_server e st packet = (Inr (), st')"
  then show "hasattr st' ''_socket''" by (rule send_sets_socket)
qed

theorem configure_not_atomic_witness:
  "configure (init (PStr ''localhost'') (PInt 8125) (PInt 50) PNone PNone (PBool False) (PBool False))
       [(''host'', PStr ''127.0.0.1''), (''use_ms'', PBool True), (''port'', PInt 9)]
     = (Inl (TypeError ''Invalid keyword argument: use_ms''),
        init (PStr ''127.0.0.1'') (PInt 8125) (PInt 50) PNone PNone (PBool False) (PBool False))
   \<and> configure (setattr (init (PStr ''localhost'') (PInt 8125) (PInt 50) PNone PNone (PBool False) (PBool False))
                  ''_socket'' PNone)
       [(''host'', PStr ''127.0.0.1'')]
     = (Inl (RuntimeError ''Cannot configure after metrics have been sent.''),
        setattr (init (PStr ''localhost'') (PInt 8125) (PInt 50) PNone PNone (PBool False) (PBool False))
                  ''_socket'' PNone)
   \<and> hasattr (snd (send_to_server \<lparr>rnd = 0, connect_ok = True, send_ok = True\<rparr>
                 (init (PStr ''localhost'') (PInt 8125) (PInt 50) PNone PNone (PBool False) (PBool False))
                 ''users.online:123|g'')) ''_socket''"
proof -
  let ?st = "init (PStr ''localhost'') (PInt 8125) (PInt 50) PNone PNone (PBool False) (PBool False)"
  let ?e = "\<lparr>rnd = 0, connect_ok = True, send_ok = True\<rparr>"
  have h1: "\<not> hasattr ?st ''_socket''" by (simp add: hasattr_def init_def)
  have h2: "hasattr (setattr ?st ''_socket'' PNone) ''_socket''"
    by (simp add: hasattr_def init_def setattr_def)
  have h3: "send_to_server ?e ?st ''users.online:123|g''
              = (Inr (), snd (send_to_server ?e ?st ''users.online:123|g''))"
    by code_simp
  have "configure ?st ([(''host'', PStr ''127.0.0.1'')] @ (''use_ms'', PBool True) # [(''port'', PInt 9)])
     = (Inl (TypeError ''Invalid keyword argument: use_ms''),
        init (PStr ''127.0.0.1'') (PInt 8125) (PInt 50) PNone PNone (PBool False) (PBool False))"
    using h1 configure_not_atomic [of ?st "[(''host'', PStr ''127.0.0.1'')]" "''use_ms''"
        "PBool True" "[(''port'', PInt 9)]"]
    by (simp add: allowed_keys_def init_def setattr_def)
  moreover have "configure (setattr ?st ''_socket'' PNone) [(''host'', PStr ''127.0.0.1'')]
     = (Inl (RuntimeError ''Cannot configure after metrics have been sent.''),
        setattr ?st ''_socket'' PNone)"
    using h2 configure_not_atomic [of "setattr ?st ''_socket'' PNone" "[]" "''x''" PNone "[]"
        "[(''host'', PStr ''127.0.0.1'')]"]
    by simp
  moreover have "hasattr (snd (send_to_server ?e ?st ''users.online:123|g'')) ''_socket''"
    using h3 configure_not_atomic [of ?st "[]" "''x''" PNone "[]" "[]" ?e "''users.online:123|g''"
        "snd (send_to_server ?e ?st ''users.online:123|g'')"]
    by simp
  ultimately show ?thesis by simp
qed

subsection \<open>Sending\<close>

lemma str_items_map: "str_items (map PStr ts) = Some ts"
  by (induction ts) auto

lemma tags_resolved:
  assumes "getattr st ''constant_tags'' = Inr (of_opt_tags ct)"
  shows "\<exists>x. add_constant_tags st (of_opt_tags tags) = Inr x
           \<and> truthy x = (tag_list tags @ tag_list ct \<noteq> [])
           \<and> (truthy x \<longrightarrow> py_join sep x = Inr (join_strs sep (tag_list tags @ tag_list ct)))"
  using assms
  by (cases ct; cases tags)
     (auto simp: add_constant_tags_def of_opt_tags_def tag_list_def py_join_def str_items_map
           simp flip: map_append)

lemma send_existing:
  assumes "getattr_none st ''_socket'' = PSock s" "send_ok e"
  shows "send_to_server e st packet = (Inr (), st\<lparr>sent := sent st @ [(s, packet)]\<rparr>)"
proof -
  from assms(1) have "map_of (attrs st) ''_socket'' = Some (PSock s)"
    by (simp add: getattr_none_def split: option.splits)
  with assms show ?thesis
    by (simp add: send_to_server_def get_socket_def getattr_def getattr_none_def)
qed

lemma send_fresh:
  assumes "getattr st ''host'' = Inr h" "getattr st ''port'' = Inr p"
    and "\<not> truthy (getattr_none st ''_socket'')" "connect_ok e" "send_ok e"
  shows "send_to_server e st packet =
           (Inr (), (setattr (st\<lparr>next_sock := Suc (next_sock st),
                                 connected := connected st @ [(next_sock st, h, p)]\<rparr>)
                       ''_socket'' (PSock (next_sock st)))
                    \<lparr>sent := sent st @ [(next_sock st, packet)]\<rparr>)"
  using assms
  by (simp add: send_to_server_def get_socket_def getattr_def getattr_none_def
        setattr_def update_conv' Let_def split: option.splits)

lemma send_ok_appends:
  assumes "getattr st ''host'' = Inr h" "getattr st ''port'' = Inr p"
    and "getattr_none st ''_socket'' = PNone \<or> getattr_none st ''_socket'' = PSock s"
    and "connect_ok e" "send_ok e"
  shows "\<exists>st'. send_to_server e st packet = (Inr (), st')
            \<and> sent st' = sent st @ [(out_sock st, packet)]
            \<and> getattr_none st' ''_socket'' = PSock (out_sock st)"
proof -
  from assms(3) show ?thesis
  proof
    assume n: "getattr_none st ''_socket'' = PNone"
    then have "\<not> truthy (getattr_none st ''_socket'')" by simp
    from send_fresh [OF assms(1,2) this assms(4,5)] n show ?thesis
      by (simp add: out_sock_def getattr_none_def setattr_def update_conv')
  next
    assume s: "getattr_none st ''_socket'' = PSock s"
    from send_existing [OF s assms(5)] s show ?thesis
      by (simp add: out_sock_def getattr_none_def)
  qed
qed

lemma report_sends:
  assumes ns: "getattr st ''namespace'' = Inr (of_opt_str namespace)"
    and ct: "getattr st ''constant_tags'' = Inr (of_opt_tags constant_tags)"
    and hp: "getattr st ''host'' = Inr h" "getattr st ''port'' = Inr p"
    and so: "getattr_none st ''_socket'' = PNone \<or> getattr_none st ''_socket'' = PSock s"
    and ok: "connect_ok e" "send_ok e"
    and sr: "\<not> num_ne_one sample_rate"
  shows "\<exists>st'. report fp e st metric code (Some v) (of_opt_tags tags) sample_rate = (Inr (), st')
            \<and> sent st' = sent st @ [(out_sock st,
                 spec_packet fp namespace metric v code (tag_list tags @ tag_list constant_tags))]
            \<and> getattr_none st' ''_socket'' = PSock (out_sock st)"
proof -
  obtain x where x: "add_constant_tags st (of_opt_tags tags) = Inr x"
      "truthy x = (tag_list tags @ tag_list constant_tags \<noteq> [])"
      "truthy x \<longrightarrow> py_join '','' x = Inr (join_strs '','' (tag_list tags @ tag_list constant_tags))"
    using tags_resolved [OF ct] by blast
  have pre: "(if truthy (of_opt_str namespace) then py_add (of_opt_str namespace) (PStr ''.'') else Inr (PStr []))
       = Inr (PStr (case namespace of None \<Rightarrow> [] | Some n \<Rightarrow> if n = [] then [] else n @ ''.''))"
    by (cases namespace) (simp_all add: of_opt_str_def)
  have "report fp e st metric code (Some v) (of_opt_tags tags) sample_rate
      = send_to_server e st (spec_packet fp namespace metric v code (tag_list tags @ tag_list constant_tags))"
    using sr x by (simp add: report_def ns pre spec_packet_def del: append_is_Nil_conv Nil_is_append_conv)
  with send_ok_appends [OF hp so ok] show ?thesis by simp
qed

subsection \<open>Zero and negation of numbers\<close>

lemma sign_bit_pow: "sign_bit = (2 :: 64 word) ^ 63"
  by (simp add: sign_bit_def)

lemma bit_sign_bit: "bit sign_bit n = (n = 63)"
  unfolding sign_bit_pow by (auto simp only: bit_exp_iff possible_bit_word) simp_all

lemma float_zero_iff: "((w :: 64 word) AND NOT sign_bit = 0) = (w = 0 \<or> w = sign_bit)"
proof
  assume a: "w AND NOT sign_bit = 0"
  have b: "\<not> bit w n" if "n \<noteq> 63" for n
  proof
    assume "bit w n"
    with that have "bit (w AND NOT sign_bit) n"
      using bit_imp_le_length [of w n] by (simp only: bit_and_iff bit_not_iff bit_sign_bit) simp
    with a show False by simp
  qed
  show "w = 0 \<or> w = sign_bit"
  proof (cases "bit w 63")
    case True
    have "w = sign_bit"
    proof (rule bit_word_eqI)
      fix n assume "n < LENGTH(64)"
      show "bit w n = bit sign_bit n"
        using b [of n] True by (cases "n = 63") (simp_all only: bit_sign_bit, simp_all)
    qed
    then show ?thesis ..
  next
    case False
    have "w = 0"
    proof (rule bit_word_eqI)
      fix n assume "n < LENGTH(64)"
      show "bit w n = bit (0 :: 64 word) n"
        using b [of n] False by (cases "n = 63") simp_all
    qed
    then show ?thesis ..
  qed
next
  assume "w = 0 \<or> w = sign_bit"
  then show "w AND NOT sign_bit = 0" by auto
qed

subsection \<open>Metric packets\<close>

text \<open>
  Claim C6. With a non-\<open>None\<close> value and sample rate 1, each of gauge, increment,
  histogram, distribution, timing and set sends exactly one packet, on the sink's socket,
  whose text is the namespace and a dot (only when a namespace is configured), the metric
  name, a colon, the value, a bar and the type code \<open>g\<close>, \<open>c\<close>, \<open>h\<close>, \<open>d\<close>,
  \<open>ms\<close>, \<open>s\<close>, followed by \<open>|#\<close> and the comma-joined tags, call tags first and
  constant tags after them, only when there are tags. The sink is one whose namespace is
  \<open>None\<close> or a string and whose tags are \<open>None\<close> or lists of strings, and the
  network accepts the datagram.
\<close>

theorem metric_packet_format:
  assumes "getattr st ''namespace'' = Inr (of_opt_str namespace)"
    and "getattr st ''constant_tags'' = Inr (of_opt_tags constant_tags)"
    and "getattr st ''host'' = Inr h" and "getattr st ''port'' = Inr p"
    and "getattr_none st ''_socket'' = PNone \<or> getattr_none st ''_socket'' = PSock s"
    and "connect_ok e" and "send_ok e"
    and "sample_rate = NInt 1 \<or> sample_rate = NFloat float_one"
  shows "(\<exists>st'. gauge fp e st metric (Some v) (of_opt_tags tags) sample_rate = (Inr (), st')
            \<and> sent st' = sent st @ [(out_sock st,
                 spec_packet fp namespace metric v ''g'' (tag_list tags @ tag_list constant_tags))])
       \<and> (\<exists>st'. increment fp e st metric (Some v) (of_opt_tags tags) sample_rate = (Inr (), st')
            \<and> sent st' = sent st @ [(out_sock st,
                 spec_packet fp namespace metric v ''c'' (tag_list tags @ tag_list constant_tags))])
       \<and> (\<exists>st'. histogram fp e st metric (Some v) (of_opt_tags tags) sample_rate = (Inr (), st')
            \<and> sent st' = sent st @ [(out_sock st,
                 spec_packet fp namespace metric v ''h'' (tag_list tags @ tag_list constant_tags))])
       \<and> (\<exists>st'. distribution fp e st metric (Some v) (of_opt_tags tags) sample_rate = (Inr (), st')
            \<and> sent st' = sent st @ [(out_sock st,
                 spec_packet fp namespace metric v ''d'' (tag_list tags @ tag_list constant_tags))])
       \<and> (\<exists>st'. timing fp e st metric (Some v) (of_opt_tags tags) sample_rate = (Inr (), st')
            \<and> sent st' = sent st @ [(out_sock st,
                 spec_packet fp namespace metric v ''ms'' (tag_list tags @ tag_list constant_tags))])
       \<and> (\<exists>st'. set_metric fp e st metric (Some v) (of_opt_tags tags) sample_rate = (Inr (), st')
            \<and> sent st' = sent st @ [(out_sock st,
                 spec_packet fp namespace metric v ''s'' (tag_list tags @ tag_list constant_tags))])"
proof -
  from assms(8) have sr: "\<not> num_ne_one sample_rate" by auto
  have r: "\<exists>st'. report fp e st metric code (Some v) (of_opt_tags tags) sample_rate = (Inr (), st')
            \<and> sent st' = sent st @ [(out_sock st,
                 spec_packet fp namespace metric v code (tag_list tags @ tag_list constant_tags))]" for code
    using report_sends [OF assms(1-7) sr, of fp metric code v tags] by blast
  show ?thesis
    unfolding gauge_def increment_def histogram_def distribution_def timing_def set_metric_def
    by (intro conjI r)
qed

text \<open>A gauge with a namespace, one call tag and one constant tag.\<close>

theorem metric_packet_format_witness:
  "sent (snd (gauge \<lparr>frepr = (\<lambda>w. []), fgt = (\<lambda>r s. False), fsub = (\<lambda>a b. a - b),
                     fmul_int = (\<lambda>i w. w), fround = (\<lambda>w. 0)\<rparr>
                \<lparr>rnd = 0, connect_ok = True, send_ok = True\<rparr>
                (init (PStr ''localhost'') (PInt 8125) (PInt 50) (PStr ''linehaul'')
                   (PList [PStr ''env:prod'']) (PBool False) (PBool False))
                ''active.connections'' (Some (NInt 1001)) (PList [PStr ''protocol:http'']) (NInt 1)))
     = [(0, ''linehaul.active.connections:1001|g|#protocol:http,env:prod'')]"
proof -
  let ?st = "init (PStr ''localhost'') (PInt 8125) (PInt 50) (PStr ''linehaul'')
                   (PList [PStr ''env:prod'']) (PBool False) (PBool False)"
  let ?e = "\<lparr>rnd = 0, connect_ok = True, send_ok = True\<rparr>"
  have h1: "getattr ?st ''namespace'' = Inr (of_opt_str (Some ''linehaul''))"
    by (simp add: getattr_def init_def of_opt_str_def)
  have h2: "getattr ?st ''constant_tags'' = Inr (of_opt_tags (Some [''env:prod'']))"
    by (simp add: getattr_def init_def of_opt_tags_def)
  have h3: "getattr ?st ''host'' = Inr (PStr ''localhost'')"
    by (simp add: getattr_def init_def)
  have h4: "getattr ?st ''port'' = Inr (PInt 8125)"
    by (simp add: getattr_def init_def)
  have h5: "getattr_none ?st ''_socket'' = PNone \<or> getattr_none ?st ''_socket'' = PSock 0"
    by (simp add: getattr_none_def init_def)
  have h6: "connect_ok ?e" and h7: "send_ok ?e" by simp_all
  have h8: "NInt 1 = NInt 1 \<or> NInt 1 = NFloat float_one" by simp
  have o: "out_sock ?st = 0" by (simp add: out_sock_def getattr_none_def init_def)
  have t: "of_opt_tags (Some [''protocol:http'']) = PList [PStr ''protocol:http'']"
    by (simp add: of_opt_tags_def)
  have s: "sent ?st = []" by (simp add: init_def)
  have p: "spec_packet fp (Some ''linehaul'') ''active.connections'' (NInt 1001) ''g''
             (tag_list (Some [''protocol:http'']) @ tag_list (Some [''env:prod'']))
           = ''linehaul.active.connections:1001|g|#protocol:http,env:prod''" for fp
    by (simp add: spec_packet_def tag_list_def str_int_def)
  let ?fp = "\<lparr>frepr = (\<lambda>w. []), fgt = (\<lambda>r s. False), fsub = (\<lambda>a b. a - b),
                     fmul_int = (\<lambda>i w. w), fround = (\<lambda>w. 0)\<rparr>"
  have "\<exists>st'. gauge ?fp ?e ?st ''active.connections'' (Some (NInt 1001))
                 (PList [PStr ''protocol:http'']) (NInt 1) = (Inr (), st')
           \<and> sent st' = [(0, ''linehaul.active.connections:1001|g|#protocol:http,env:prod'')]"
    using metric_packet_format [OF h1 h2 h3 h4 h5 h6 h7 h8, where fp = ?fp
        and metric = "''active.connections''" and v = "NInt 1001"
        and tags = "Some [''protocol:http'']"]
    unfolding o t s p by simp
  then show ?thesis by auto
qed

text \<open>
  Claim C9. For every metric name, tags and sample rate, in every state, each of gauge,
  increment, decrement, histogram, distribution, timing and set called with value
  \<open>None\<close> returns normally and leaves the whole state, packets sent included, as it
  was; decrement maps \<open>None\<close> to \<open>None\<close>.
\<close>

theorem none_value_dropped:
  "gauge fp e st metric None tags sample_rate = (Inr (), st)
   \<and> increment fp e st metric None tags sample_rate = (Inr (), st)
   \<and> decrement_value None = None
   \<and> decrement fp e st metric None tags sample_rate = (Inr (), st)
   \<and> histogram fp e st metric None tags sample_rate = (Inr (), st)
   \<and> distribution fp e st metric None tags sample_rate = (Inr (), st)
   \<and> timing fp e st metric None tags sample_rate = (Inr (), st)
   \<and> set_metric fp e st metric None tags sample_rate = (Inr (), st)"
  by (simp add: gauge_def increment_def decrement_def decrement_value_def histogram_def
        distribution_def timing_def set_metric_def report_def)

text \<open>
  Claim C2. The values that test false are the integer 0 and the doubles 0.0 and -0.0.
  Decrement of such a value reports the counter packet with that value itself, and
  decrement of any other number reports the counter packet with the negated value. For the
  double 0.0 the difference shows: its negation is -0.0, another value, and is not what is
  reported.
\<close>

theorem decrement_zero:
  "(\<not> num_truthy v) = (v = NInt 0 \<or> v = NFloat 0 \<or> v = NFloat sign_bit)
   \<and> (\<not> num_truthy v \<longrightarrow>
        decrement fp e st metric (Some v) tags sample_rate
          = report fp e st metric ''c'' (Some v) tags sample_rate)
   \<and> (num_truthy v \<longrightarrow>
        decrement fp e st metric (Some v) tags sample_rate
          = report fp e st metric ''c'' (Some (num_neg v)) tags sample_rate)
   \<and> num_neg (NInt 0) = NInt 0
   \<and> num_neg (NFloat 0) = NFloat sign_bit \<and> NFloat sign_bit \<noteq> NFloat 0"
proof -
  have "(\<not> num_truthy v) = (v = NInt 0 \<or> v = NFloat 0 \<or> v = NFloat sign_bit)"
    by (cases v) (simp_all add: float_zero_iff)
  moreover have "NFloat sign_bit \<noteq> NFloat 0" by (simp add: sign_bit_def)
  ultimately show ?thesis
    by (simp add: decrement_def decrement_value_def)
qed

text \<open>Decrement of 0, of 2 and of the double 0.0 on a fresh sink.\<close>

theorem decrement_zero_witness:
  "sent (snd (decrement \<lparr>frepr = (\<lambda>w. if w = 0 then ''0.0'' else ''-0.0''), fgt = (\<lambda>r s. False),
                          fsub = (\<lambda>a b. a - b), fmul_int = (\<lambda>i w. w), fround = (\<lambda>w. 0)\<rparr>
                \<lparr>rnd = 0, connect_ok = True, send_ok = True\<rparr>
                (init (PStr ''localhost'') (PInt 8125) (PInt 50) PNone PNone (PBool False) (PBool False))
                ''files.remaining'' (Some (NInt 0)) PNone (NInt 1)))
     = [(0, ''files.remaining:0|c'')]
   \<and> sent (snd (decrement \<lparr>frepr = (\<lambda>w. if w = 0 then ''0.0'' else ''-0.0''), fgt = (\<lambda>r s. False),
                          fsub = (\<lambda>a b. a - b), fmul_int = (\<lambda>i w. w), fround = (\<lambda>w. 0)\<rparr>
                \<lparr>rnd = 0, connect_ok = True, send_ok = True\<rparr>
                (init (PStr ''localhost'') (PInt 8125) (PInt 50) PNone PNone (PBool False) (PBool False))
                ''files.remaining'' (Some (NInt 2)) PNone (NInt 1)))
     = [(0, ''files.remaining:-2|c'')]
   \<and> sent (snd (decrement \<lparr>frepr = (\<lambda>w. if w = 0 then ''0.0'' else ''-0.0''), fgt = (\<lambda>r s. False),
                          fsub = (\<lambda>a b. a - b), fmul_int = (\<lambda>i w. w), fround = (\<lambda>w. 0)\<rparr>
                \<lparr>rnd = 0, connect_ok = True, send_ok = True\<rparr>
                (init (PStr ''localhost'') (PInt 8125) (PInt 50) PNone PNone (PBool False) (PBool False))
                ''files.remaining'' (Some (NFloat 0)) PNone (NInt 1)))
     = [(0, ''files.remaining:0.0|c'')]"
proof -
  let ?fp = "\<lparr>frepr = (\<lambda>w. if w = 0 then ''0.0'' else ''-0.0''), fgt = (\<lambda>r s. False),
                          fsub = (\<lambda>a b. a - b), fmul_int = (\<lambda>i w. w), fround = (\<lambda>w. 0)\<rparr>"
  let ?e = "\<lparr>rnd = 0, connect_ok = True, send_ok = True\<rparr>"
  let ?st = "init (PStr ''localhost'') (PInt 8125) (PInt 50) PNone PNone (PBool False) (PBool False)"
  have r0: "sent (snd (report ?fp ?e ?st ''files.remaining'' ''c'' (Some (NInt 0)) PNone (NInt 1)))
              = [(0, ''files.remaining:0|c'')]"
    by code_simp
  have r2: "sent (snd (report ?fp ?e ?st ''files.remaining'' ''c'' (Some (num_neg (NInt 2))) PNone (NInt 1)))
              = [(0, ''files.remaining:-2|c'')]"
    by code_simp
  have rf: "sent (snd (report ?fp ?e ?st ''files.remaining'' ''c'' (Some (NFloat 0)) PNone (NInt 1)))
              = [(0, ''files.remaining:0.0|c'')]"
    by code_simp
  have "sent (snd (decrement ?fp ?e ?st ''files.remaining'' (Some (NInt 0)) PNone (NInt 1)))
          = [(0, ''files.remaining:0|c'')]"
    using decrement_zero [of "NInt 0" ?fp ?e ?st "''files.remaining''" PNone "NInt 1"] r0
    by simp
  moreover have "sent (snd (decrement ?fp ?e ?st ''files.remaining'' (Some (NInt 2)) PNone (NInt 1)))
          = [(0, ''files.remaining:-2|c'')]"
    using decrement_zero [of "NInt 2" ?fp ?e ?st "''files.remaining''" PNone "NInt 1"] r2
    by simp
  moreover have "sent (snd (decrement ?fp ?e ?st ''files.remaining'' (Some (NFloat 0)) PNone (NInt 1)))
          = [(0, ''files.remaining:0.0|c'')]"
    using decrement_zero [of "NFloat 0" ?fp ?e ?st "''files.remaining''" PNone "NInt 1"] rf
    by simp
  ultimately show ?thesis by simp
qed

subsection \<open>The socket over a run\<close>

















section \<open>Properties of the command line\<close>





text \<open>
  Claim C7. Whichever source is used, when the decoded object has the members
  \<open>client_email\<close> and \<open>private_key\<close>, the client is constructed from exactly these
  two values and the connection limit; two decoded objects that agree on these two
  members give the same outcome, whatever else they hold.
\<close>

theorem credentials_pair:
  "(loads (f_contents f) = Inr (JDict kvs) \<and> map_of kvs ''client_email'' = Some ce
      \<and> map_of kvs ''private_key'' = Some pk \<longrightarrow>
      configure_bigquery loads (Some f) None amc
        = ([LogDebug ''Configuring BigQuery from %r'' [OStr (f_name f)],
            JsonLoad (f_contents f), BigQueryInit ce pk amc],
           Inr \<lparr>client_email = ce, private_key = pk, max_connections = amc\<rparr>))
   \<and> (loads b = Inr (JDict kvs) \<and> map_of kvs ''client_email'' = Some ce
      \<and> map_of kvs ''private_key'' = Some pk \<longrightarrow>
      configure_bigquery loads None (Some b) amc
        = ([LogDebug ''Configuring BigQuery from base64 blob'' [],
            JsonLoad b, BigQueryInit ce pk amc],
           Inr \<lparr>client_email = ce, private_key = pk, max_connections = amc\<rparr>))
   \<and> (map_of kvs' ''client_email'' = map_of kvs ''client_email''
      \<and> map_of kvs' ''private_key'' = map_of kvs ''private_key'' \<longrightarrow>
      snd (configure_bigquery (\<lambda>t. Inr (JDict kvs')) cf cb amc)
        = snd (configure_bigquery (\<lambda>t. Inr (JDict kvs)) cf cb amc))"
  by (auto simp: configure_bigquery_def load_credentials_def subscript_def
        split: option.splits prod.splits sum.splits)

text \<open>A service-account document read from a file and from a blob, and a second document
  with the same two members in another order beside a different third one.\<close>

theorem credentials_pair_witness:
  "snd (configure_bigquery (\<lambda>t. Inr (JDict [(''type'', JStr ''service_account''),
                              (''client_email'', JStr ''linehaul@example.org''),
                              (''private_key'', JStr ''KEY'')]))
          (Some \<lparr>f_name = ''credentials.json'', f_contents = ''{}''\<rparr>) None (Some 30))
     = Inr \<lparr>client_email = JStr ''linehaul@example.org'', private_key = JStr ''KEY'',
            max_connections = Some 30\<rparr>
   \<and> snd (configure_bigquery (\<lambda>t. Inr (JDict [(''type'', JStr ''service_account''),
                              (''client_email'', JStr ''linehaul@example.org''),
                              (''private_key'', JStr ''KEY'')]))
          None (Some ''{}'') None)
     = Inr \<lparr>client_email = JStr ''linehaul@example.org'', private_key = JStr ''KEY'',
            max_connections = None\<rparr>
   \<and> snd (configure_bigquery (\<lambda>t. Inr (JDict [(''private_key'', JStr ''KEY''),
                                             (''client_email'', JStr ''linehaul@example.org''),
                                             (''project_id'', JStr ''other'')]))
          None (Some ''{}'') None)
     = snd (configure_bigquery (\<lambda>t. Inr (JDict [(''type'', JStr ''service_account''),
                              (''client_email'', JStr ''linehaul@example.org''),
                              (''private_key'', JStr ''KEY'')]))
          None (Some ''{}'') None)"
proof -
  let ?loads = "(\<lambda>t. Inr (JDict [(''type'', JStr ''service_account''),
                              (''client_email'', JStr ''linehaul@example.org''),
                              (''private_key'', JStr ''KEY'')]))"
  let ?kvs = "[(''type'', JStr ''service_account''),
               (''client_email'', JStr ''linehaul@example.org''),
               (''private_key'', JStr ''KEY'')]"
  let ?kvs' = "[(''private_key'', JStr ''KEY''),
                (''client_email'', JStr ''linehaul@example.org''),
                (''project_id'', JStr ''other'')]"
  let ?f = "\<lparr>f_name = ''credentials.json'', f_contents = ''{}''\<rparr>"
  have "snd (configure_bigquery ?loads (Some ?f) None (Some 30))
     = Inr \<lparr>client_email = JStr ''linehaul@example.org'', private_key = JStr ''KEY'',
            max_connections = Some 30\<rparr>"
    using credentials_pair [where loads = ?loads and f = ?f and kvs = ?kvs
        and ce = "JStr ''linehaul@example.org''" and pk = "JStr ''KEY''" and amc = "Some 30"]
    by simp
  moreover have "snd (configure_bigquery ?loads None (Some ''{}'') None)
     = Inr \<lparr>client_email = JStr ''linehaul@example.org'', private_key = JStr ''KEY'',
            max_connections = None\<rparr>"
    using credentials_pair [where loads = ?loads and b = "''{}''" and kvs = ?kvs
        and ce = "JStr ''linehaul@example.org''" and pk = "JStr ''KEY''" and amc = None]
    by simp
  moreover have "snd (configure_bigquery (\<lambda>t. Inr (JDict ?kvs')) None (Some ''{}'') None)
     = snd (configure_bigquery ?loads None (Some ''{}'') None)"
    using credentials_pair [where kvs' = ?kvs' and kvs = ?kvs and cf = None
        and cb = "Some ''{}''" and amc = None]
    by simp
  ultimately show ?thesis by simp
qed

lemma server_calls_append: "server_calls (xs @ ys) = server_calls xs @ server_calls ys"
  by (induction xs rule: server_calls.induct) simp_all

lemma server_calls_load:
  "load_credentials loads text amc = (eff, r) \<Longrightarrow> server_calls eff = []"
  by (auto simp: load_credentials_def split: sum.splits)

lemma server_calls_configure: "server_calls (fst (configure_bigquery loads cf cb amc)) = []"
  by (auto simp: configure_bigquery_def split: option.splits prod.splits
        dest: server_calls_load)

lemma server_unfold:
  "server loads opts =
     (case configure_bigquery loads (o_credentials_file opts) (o_credentials_blob opts)
             (Some (o_api_max_connections opts)) of
        (eff, Inl x) \<Rightarrow> (eff, Inl x)
      | (eff, Inr bq) \<Rightarrow>
          (eff
           @ [log_config (''bind'', OStr (o_bind opts)),
              log_config (''port'', OInt (o_port opts)),
              log_config (''token'', opt_str (o_token opts)),
              log_config (''max_line_size'', OInt (o_max_line_size opts)),
              log_config (''recv_size'', OInt (o_recv_size opts))]
           @ [log_config (''cleanup_timeout'', OInt (o_cleanup_timeout opts))]
           @ [log_config (''qsize'', OInt (o_queued_events opts)),
              log_config (''batch_size'', OInt (o_batch_size opts)),
              log_config (''batch_timeout'', OInt (o_batch_timeout opts)),
              log_config (''retry_max_attempts'', OInt (o_retry_max_attempts opts)),
              log_config (''retry_max_wait'', OFloat (o_retry_max_wait opts)),
              log_config (''retry_multiplier'', OFloat (o_retry_multiplier opts)),
              log_config (''api_timeout'', OInt (o_api_timeout opts))]
           @ [RunServer bq (o_table opts)
                [(''bind'', OStr (o_bind opts)),
                 (''port'', OInt (o_port opts)),
                 (''token'', opt_str (o_token opts)),
                 (''max_line_size'', OInt (o_max_line_size opts)),
                 (''recv_size'', OInt (o_recv_size opts)),
                 (''qsize'', OInt (o_queued_events opts)),
                 (''batch_size'', OInt (o_batch_size opts)),
                 (''batch_timeout'', OInt (o_batch_timeout opts)),
                 (''retry_max_attempts'', OInt (o_retry_max_attempts opts)),
                 (''retry_max_wait'', OFloat (o_retry_max_wait opts)),
                 (''retry_multiplier'', OFloat (o_retry_multiplier opts)),
                 (''api_timeout'', OInt (o_api_timeout opts))]],
           Inr ()))"
  by (simp add: server_def split: prod.splits sum.splits)

lemma log_config_cleanup:
  "is_cleanup_log (log_config (k, v)) = (k = ''cleanup_timeout'')"
  by (simp add: log_config_def SENSITIVE_def)

text \<open>
  Claim C8. Changing the cleanup timeout changes neither the outcome of the server
  command nor the call it hands to \<^verbatim>\<open>trio.run\<close>; no keyword of that call is named
  \<open>cleanup_timeout\<close>; and apart from the debug record that shows the value, the
  command does the same things in the same order.
\<close>

theorem cleanup_timeout_not_forwarded:
  "snd (server loads (opts\<lparr>o_cleanup_timeout := t\<rparr>)) = snd (server loads opts)
   \<and> server_calls (fst (server loads (opts\<lparr>o_cleanup_timeout := t\<rparr>)))
       = server_calls (fst (server loads opts))
   \<and> (\<forall>bq table kwargs. (bq, table, kwargs) \<in> set (server_calls (fst (server loads opts)))
         \<longrightarrow> ''cleanup_timeout'' \<notin> fst ` set kwargs)
   \<and> filter (\<lambda>x. \<not> is_cleanup_log x) (fst (server loads (opts\<lparr>o_cleanup_timeout := t\<rparr>)))
       = filter (\<lambda>x. \<not> is_cleanup_log x) (fst (server loads opts))"
proof -
  obtain eff r where c: "configure_bigquery loads (o_credentials_file opts)
      (o_credentials_blob opts) (Some (o_api_max_connections opts)) = (eff, r)"
    by (cases "configure_bigquery loads (o_credentials_file opts)
      (o_credentials_blob opts) (Some (o_api_max_connections opts))")
  have e: "server_calls eff = []"
    using server_calls_configure [of loads "o_credentials_file opts" "o_credentials_blob opts"
        "Some (o_api_max_connections opts)"] by (simp add: c)
  show ?thesis
  proof (cases r)
    case (Inl x)
    then show ?thesis by (simp add: server_unfold c e)
  next
    case (Inr bq)
    then show ?thesis
      by (simp add: server_unfold c e server_calls_append log_config_cleanup)
         (simp add: log_config_def)
  qed
qed


text \<open>The server call of one invocation, unchanged by another cleanup timeout.\<close>

theorem cleanup_timeout_not_forwarded_witness:
  "''cleanup_timeout'' \<notin> fst ` set
      [(''bind'', OStr ''0.0.0.0''), (''port'', OInt 512), (''token'', OStr ''secret''),
       (''max_line_size'', OInt 16384), (''recv_size'', OInt 8192), (''qsize'', OInt 10000),
       (''batch_size'', OInt 500), (''batch_timeout'', OInt 30),
       (''retry_max_attempts'', OInt 10), (''retry_max_wait'', OFloat 0x404E000000000000),
       (''retry_multiplier'', OFloat 0x3FE0000000000000), (''api_timeout'', OInt 30)]
   \<and> server_calls (fst (server (\<lambda>t. Inr (JDict [(''type'', JStr ''service_account''),
                              (''client_email'', JStr ''linehaul@example.org''),
                              (''private_key'', JStr ''KEY'')]))
        (\<lparr>o_credentials_file = None, o_credentials_blob = Some ''{}'',
          o_bind = ''0.0.0.0'', o_port = 512, o_token = Some ''secret'', o_max_line_size = 16384,
          o_recv_size = 8192, o_cleanup_timeout = 30, o_queued_events = 10000,
          o_batch_size = 500, o_batch_timeout = 30, o_retry_max_attempts = 10,
          o_retry_max_wait = 0x404E000000000000, o_retry_multiplier = 0x3FE0000000000000,
          o_api_timeout = 30, o_api_max_connections = 30,
          o_table = ''project.dataset.table''\<rparr>\<lparr>o_cleanup_timeout := 5\<rparr>)))
     = [(\<lparr>client_email = JStr ''linehaul@example.org'', private_key = JStr ''KEY'',
           max_connections = Some 30\<rparr>,
         ''project.dataset.table'',
         [(''bind'', OStr ''0.0.0.0''), (''port'', OInt 512), (''token'', OStr ''secret''),
          (''max_line_size'', OInt 16384), (''recv_size'', OInt 8192), (''qsize'', OInt 10000),
          (''batch_size'', OInt 500), (''batch_timeout'', OInt 30),
          (''retry_max_attempts'', OInt 10), (''retry_max_wait'', OFloat 0x404E000000000000),
          (''retry_multiplier'', OFloat 0x3FE0000000000000), (''api_timeout'', OInt 30)])]"
proof -
  let ?loads = "(\<lambda>t. Inr (JDict [(''type'', JStr ''service_account''),
                              (''client_email'', JStr ''linehaul@example.org''),
                              (''private_key'', JStr ''KEY'')]))"
  let ?opts = "\<lparr>o_credentials_file = None, o_credentials_blob = Some ''{}'',
          o_bind = ''0.0.0.0'', o_port = 512, o_token = Some ''secret'', o_max_line_size = 16384,
          o_recv_size = 8192, o_cleanup_timeout = 30, o_queued_events = 10000,
          o_batch_size = 500, o_batch_timeout = 30, o_retry_max_attempts = 10,
          o_retry_max_wait = 0x404E000000000000, o_retry_multiplier = 0x3FE0000000000000,
          o_api_timeout = 30, o_api_max_connections = 30,
          o_table = ''project.dataset.table''\<rparr>"
  let ?bq = "\<lparr>client_email = JStr ''linehaul@example.org'', private_key = JStr ''KEY'',
           max_connections = Some 30\<rparr>"
  let ?kwargs = "[(''bind'', OStr ''0.0.0.0''), (''port'', OInt 512), (''token'', OStr ''secret''),
       (''max_line_size'', OInt 16384), (''recv_size'', OInt 8192), (''qsize'', OInt 10000),
       (''batch_size'', OInt 500), (''batch_timeout'', OInt 30),
       (''retry_max_attempts'', OInt 10), (''retry_max_wait'', OFloat 0x404E000000000000),
       (''retry_multiplier'', OFloat 0x3FE0000000000000), (''api_timeout'', OInt 30)]"
  have c: "server_calls (fst (server ?loads ?opts)) = [(?bq, ''project.dataset.table'', ?kwargs)]"
    by code_simp
  note t = cleanup_timeout_not_forwarded [where loads = ?loads and opts = ?opts and t = 5]
  from t have "\<forall>bq table kwargs. (bq, table, kwargs) \<in> set (server_calls (fst (server ?loads ?opts)))
         \<longrightarrow> ''cleanup_timeout'' \<notin> fst ` set kwargs"
    by (elim conjE)
  then have "(?bq, ''project.dataset.table'', ?kwargs) \<in> set (server_calls (fst (server ?loads ?opts)))
         \<longrightarrow> ''cleanup_timeout'' \<notin> fst ` set ?kwargs"
    by (elim allE)
  with c have a: "''cleanup_timeout'' \<notin> fst ` set ?kwargs" by simp
  from t have "server_calls (fst (server ?loads (?opts\<lparr>o_cleanup_timeout := 5\<rparr>)))
       = server_calls (fst (server ?loads ?opts))"
    by (elim conjE)
  with c have b: "server_calls (fst (server ?loads (?opts\<lparr>o_cleanup_timeout := 5\<rparr>)))
       = [(?bq, ''project.dataset.table'', ?kwargs)]"
    by simp
  from a b show ?thesis by (intro conjI)
qed

section \<open>Properties of the timing context manager and decorator\<close>










end
